theory Spec2Isabelle
  imports Main "HOL-Library.Word"
begin

section \<open>Strings and numbers of the host language\<close>

text \<open>
  The instruction of a task is a string of the host language in full: the list of its
  UTF-16 code units, 16-bit words. The other strings (paths, messages, command lines,
  what the command runner returns) are modelled by the list of their code units restricted
  to code units below 256. A timestamp (\<^verbatim>\<open>Date.now()\<close>, milliseconds) is an \<open>int\<close>.
\<close>

type_synonym js_string = "16 word list"

definition code_units :: "string \<Rightarrow> js_string" where
  \<comment> \<open>a string of code units below 256, as a string in full\<close>
  "code_units s = map (\<lambda>c. of_nat (of_char c)) s"

definition isWhiteSpace :: "char \<Rightarrow> bool" where
  "isWhiteSpace c = (of_char c \<in> {9, 10, 11, 12, 13, 32, 160 :: nat})"

definition trim :: "string \<Rightarrow> string" where
  \<comment> \<open>\<^verbatim>\<open>String.prototype.trim\<close>: white space and line terminators off both ends\<close>
  "trim s = rev (dropWhile isWhiteSpace (rev (dropWhile isWhiteSpace s)))"

definition digit_char :: "nat \<Rightarrow> char" where
  "digit_char d = char_of (48 + d)"

fun nat_toString :: "nat \<Rightarrow> string" where
  "nat_toString n =
     (if n < 10 then [digit_char n] else nat_toString (n div 10) @ [digit_char (n mod 10)])"

declare nat_toString.simps [simp del]

definition number_toString :: "int \<Rightarrow> string" where
  \<comment> \<open>an integral number inside a template literal: its decimal digits, as the host language
     prints every integral number of fewer than 22 digits, so every clock reading; a larger
     number prints in exponent notation, which the model does not follow\<close>
  "number_toString i =
     (if i < 0 then CHR ''-'' # nat_toString (nat (- i)) else nat_toString (nat i))"

definition hex_char :: "nat \<Rightarrow> char" where
  "hex_char d = (if d < 10 then char_of (48 + d) else char_of (87 + d))"

definition json_escape :: "char \<Rightarrow> string" where
  \<comment> \<open>how \<^verbatim>\<open>JSON.stringify\<close> writes one code unit of a string\<close>
  "json_escape c =
     (let n = (of_char c :: nat) in
      if n = 34 then [CHR 0x5C, CHR 0x22]
      else if n = 92 then [CHR 0x5C, CHR 0x5C]
      else if n = 8 then [CHR 0x5C, CHR ''b'']
      else if n = 12 then [CHR 0x5C, CHR ''f'']
      else if n = 10 then [CHR 0x5C, CHR ''n'']
      else if n = 13 then [CHR 0x5C, CHR ''r'']
      else if n = 9 then [CHR 0x5C, CHR ''t'']
      else if n < 32 then [CHR 0x5C, CHR ''u'', CHR ''0'', CHR ''0'', hex_char (n div 16), hex_char (n mod 16)]
      else [c])"

definition JSON_stringify :: "string \<Rightarrow> string" where
  "JSON_stringify s = [CHR 0x22] @ concat (map json_escape s) @ [CHR 0x22]"

definition or_else :: "string \<Rightarrow> string \<Rightarrow> string" where
  \<comment> \<open>\<^verbatim>\<open>a || b\<close> on strings: the empty string is falsy\<close>
  "or_else a b = (if a = [] then b else a)"

definition or_now :: "int option \<Rightarrow> int \<Rightarrow> int" where
  \<comment> \<open>\<^verbatim>\<open>task.endTime || Date.now()\<close>: \<^verbatim>\<open>undefined\<close> and \<^verbatim>\<open>0\<close> are falsy\<close>
  "or_now e n = (case e of None \<Rightarrow> n | Some v \<Rightarrow> if v = 0 then n else v)"

section \<open>The command runner's result\<close>

record ExecuteResult =
  stdout :: string
  stderr :: string
  exitCode :: int

section \<open>Tasks and the registry\<close>

datatype TaskStatus = running | completed | failed | stopped

fun status_toString :: "TaskStatus \<Rightarrow> string" where
  "status_toString running = ''running''"
| "status_toString completed = ''completed''"
| "status_toString failed = ''failed''"
| "status_toString stopped = ''stopped''"

record ClaudeCodeTask =
  taskId :: string
  prompt :: js_string
  workingDirectory :: string
  status :: TaskStatus
  startTime :: int
  endTime :: "int option"
  exitCode :: "int option"
  tmuxSession :: string

text \<open>
  The registry is the \<^verbatim>\<open>Map\<close> \<^verbatim>\<open>tasks\<close>: an association list in insertion order.
  \<^verbatim>\<open>tasks.set\<close> replaces the value of a key that is present, where it stands, and
  appends a new key at the end. A task object reached through \<^verbatim>\<open>tasks.get\<close> is mutated
  in place, which is \<open>tasks_set\<close> at its own key.
\<close>

type_synonym registry = "(string \<times> ClaudeCodeTask) list"

definition tasks_get :: "registry \<Rightarrow> string \<Rightarrow> ClaudeCodeTask option" where
  "tasks_get tasks k = map_of tasks k"

fun tasks_set :: "registry \<Rightarrow> string \<Rightarrow> ClaudeCodeTask \<Rightarrow> registry" where
  "tasks_set [] k v = [(k, v)]"
| "tasks_set ((k', v') # tasks) k v =
     (if k' = k then (k, v) # tasks else (k', v') # tasks_set tasks k v)"

definition CLAUDE_BINARY :: string where
  "CLAUDE_BINARY = ''/home/exedev/.local/bin/claude''"

definition generateTaskId :: "int \<Rightarrow> string" where
  \<comment> \<open>the argument is the reading of \<^verbatim>\<open>Date.now()\<close>\<close>
  "generateTaskId now = ''task-'' @ number_toString now"

definition getTmuxSession :: "string \<Rightarrow> string" where
  "getTmuxSession tid = ''claude-'' @ tid"

subsection \<open>The command lines handed to the runner\<close>

definition has_session_cmd :: "string \<Rightarrow> string" where
  "has_session_cmd s = ''tmux has-session -t '' @ s @ '' 2>/dev/null && echo running || echo done''"

definition capture_cmd :: "string \<Rightarrow> string \<Rightarrow> string" where
  \<open>capture_cmd s n =
     ''tmux capture-pane -t '' @ s @ '' -p -S -'' @ n @ '' 2>/dev/null || echo "(session ended)"''\<close>

definition send_keys_cmd :: "string \<Rightarrow> string \<Rightarrow> string" where
  "send_keys_cmd s message = ''tmux send-keys -t '' @ s @ '' '' @ JSON_stringify message @ '' Enter''"

definition kill_session_cmd :: "string \<Rightarrow> string" where
  "kill_session_cmd s = ''tmux kill-session -t '' @ s @ '' 2>/dev/null''"

definition session_gone :: "ExecuteResult \<Rightarrow> bool" where
  \<comment> \<open>\<^verbatim>\<open>checkResult.stdout.trim() === 'done'\<close>\<close>
  "session_gone checkResult = (trim (stdout checkResult) = ''done'')"

section \<open>The operations\<close>

text \<open>
  Every value that an operation obtains from outside (the result of a call of the command
  runner, a reading of the clock) is an argument of its model, in the order in which the
  source obtains it. Every operation returns its result, the registry afterwards, and the
  command lines it handed to the runner, in order.
\<close>

record StatusResult =
  status_r :: TaskStatus
  runtimeSeconds :: int
  lastOutput :: string

record OutputResult =
  output_r :: string
  status_o :: TaskStatus

record SendResult =
  sent :: bool
  error_s :: "string option"

record StopResult =
  stopped_r :: bool
  error_p :: "string option"

record SessionInfo =
  taskId_l :: string
  prompt_l :: js_string
  status_l :: TaskStatus
  runtimeSeconds_l :: int
  workingDirectory_l :: string

record StartResult =
  taskId_t :: string
  status_t :: TaskStatus
  output_t :: "string option"

definition mark_completed :: "int \<Rightarrow> ClaudeCodeTask \<Rightarrow> ClaudeCodeTask" where
  \<comment> \<open>\<^verbatim>\<open>task.status = 'completed'; task.endTime = Date.now();\<close>\<close>
  "mark_completed now task = task\<lparr>status := completed, endTime := Some now\<rparr>"

definition getClaudeCodeStatus ::
  "registry \<Rightarrow> string \<Rightarrow> ExecuteResult \<Rightarrow> int \<Rightarrow> int \<Rightarrow> ExecuteResult
     \<Rightarrow> (string + StatusResult) \<times> registry \<times> string list" where
  "getClaudeCodeStatus tasks tid checkResult now_end now_rt captureResult =
     (case tasks_get tasks tid of
        None \<Rightarrow> (Inl (''Task not found: '' @ tid), tasks, [])
      | Some task0 \<Rightarrow>
          let reconcile = (status task0 = running \<and> session_gone checkResult);
              task = (if reconcile then mark_completed now_end task0 else task0);
              tasks' = (if reconcile then tasks_set tasks tid task else tasks);
              rt = (or_now (endTime task) now_rt - startTime task) div 1000
          in (Inr \<lparr>status_r = status task, runtimeSeconds = rt,
                    lastOutput = or_else (stdout captureResult) ''(no output)''\<rparr>,
              tasks',
              [has_session_cmd (tmuxSession task), capture_cmd (tmuxSession task) ''30'']))"

definition lines_or_default :: "int option \<Rightarrow> int" where
  \<comment> \<open>\<^verbatim>\<open>lines || 500\<close>\<close>
  "lines_or_default lines = (case lines of None \<Rightarrow> 500 | Some n \<Rightarrow> if n = 0 then 500 else n)"

definition getClaudeCodeOutput ::
  "registry \<Rightarrow> string \<Rightarrow> int option \<Rightarrow> ExecuteResult \<Rightarrow> int \<Rightarrow> ExecuteResult
     \<Rightarrow> (string + OutputResult) \<times> registry \<times> string list" where
  "getClaudeCodeOutput tasks tid lines checkResult now_end captureResult =
     (case tasks_get tasks tid of
        None \<Rightarrow> (Inl (''Task not found: '' @ tid), tasks, [])
      | Some task0 \<Rightarrow>
          let reconcile = (status task0 = running \<and> session_gone checkResult);
              task = (if reconcile then mark_completed now_end task0 else task0);
              tasks' = (if reconcile then tasks_set tasks tid task else tasks);
              lineCount = lines_or_default lines
          in (Inr \<lparr>output_r = or_else (stdout captureResult) ''(no output)'',
                    status_o = status task\<rparr>,
              tasks',
              [has_session_cmd (tmuxSession task),
               capture_cmd (tmuxSession task) (number_toString lineCount)]))"

definition sendToClaudeCode ::
  "registry \<Rightarrow> string \<Rightarrow> string \<Rightarrow> ExecuteResult \<Rightarrow> int \<Rightarrow> ExecuteResult
     \<Rightarrow> SendResult \<times> registry \<times> string list" where
  "sendToClaudeCode tasks tid message checkResult now_end sendResult =
     (case tasks_get tasks tid of
        None \<Rightarrow> (\<lparr>sent = False, error_s = Some (''Task not found: '' @ tid)\<rparr>, tasks, [])
      | Some task \<Rightarrow>
          if status task \<noteq> running
          then (\<lparr>sent = False,
                 error_s = Some (''Task is not running (status: '' @ status_toString (status task) @ '')'')\<rparr>,
                tasks, [])
          else if session_gone checkResult
          then (\<lparr>sent = False, error_s = Some ''Task has already completed''\<rparr>,
                tasks_set tasks tid (mark_completed now_end task),
                [has_session_cmd (tmuxSession task)])
          else if ExecuteResult.exitCode sendResult \<noteq> 0
          then (\<lparr>sent = False, error_s = Some (''Failed to send: '' @ stderr sendResult)\<rparr>,
                tasks,
                [has_session_cmd (tmuxSession task), send_keys_cmd (tmuxSession task) message])
          else (\<lparr>sent = True, error_s = None\<rparr>,
                tasks,
                [has_session_cmd (tmuxSession task), send_keys_cmd (tmuxSession task) message]))"

definition stopClaudeCodeTask ::
  "registry \<Rightarrow> string \<Rightarrow> ExecuteResult \<Rightarrow> int \<Rightarrow> StopResult \<times> registry \<times> string list" where
  "stopClaudeCodeTask tasks tid killResult now_end =
     (case tasks_get tasks tid of
        None \<Rightarrow> (\<lparr>stopped_r = False, error_p = Some (''Task not found: '' @ tid)\<rparr>, tasks, [])
      | Some task \<Rightarrow>
          if status task \<noteq> running
          then (\<lparr>stopped_r = False,
                 error_p = Some (''Task is not running (status: '' @ status_toString (status task) @ '')'')\<rparr>,
                tasks, [])
          else (\<lparr>stopped_r = True, error_p = None\<rparr>,
                tasks_set tasks tid (task\<lparr>status := stopped, endTime := Some now_end\<rparr>),
                [kill_session_cmd (tmuxSession task)]))"

text \<open>
  \<^verbatim>\<open>listClaudeCodeSessions\<close> visits every task once, in the order of the registry. The
  result of the liveness check of a task and the clock readings taken for it are given
  per session name and per task id.
\<close>

definition reconcile_task ::
  "(string \<Rightarrow> ExecuteResult) \<Rightarrow> (string \<Rightarrow> int) \<Rightarrow> ClaudeCodeTask \<Rightarrow> ClaudeCodeTask" where
  "reconcile_task check now_end task =
     (if status task = running
      then (if session_gone (check (tmuxSession task))
            then mark_completed (now_end (taskId task)) task else task)
      else task)"

definition prompt_summary :: "js_string \<Rightarrow> js_string" where
  "prompt_summary p = take 100 p @ (if length p > 100 then code_units ''...'' else [])"

definition session_info :: "(string \<Rightarrow> int) \<Rightarrow> ClaudeCodeTask \<Rightarrow> SessionInfo" where
  "session_info now_rt task =
     \<lparr>taskId_l = taskId task,
      prompt_l = prompt_summary (prompt task),
      status_l = status task,
      runtimeSeconds_l = (or_now (endTime task) (now_rt (taskId task)) - startTime task) div 1000,
      workingDirectory_l = workingDirectory task\<rparr>"

definition listClaudeCodeSessions ::
  "registry \<Rightarrow> (string \<Rightarrow> ExecuteResult) \<Rightarrow> (string \<Rightarrow> int) \<Rightarrow> (string \<Rightarrow> int)
     \<Rightarrow> SessionInfo list \<times> registry \<times> string list" where
  "listClaudeCodeSessions tasks check now_end now_rt =
     (let tasks' = map (\<lambda>(k, task). (k, reconcile_task check now_end task)) tasks
      in (map (\<lambda>(k, task). session_info now_rt task) tasks',
          tasks',
          map (\<lambda>(k, task). has_session_cmd (tmuxSession task))
            (filter (\<lambda>(k, task). status task = running) tasks)))"

section \<open>The transport encoding of the instruction\<close>

text \<open>
  \<^verbatim>\<open>Buffer.from(prompt)\<close> is the UTF-8 encoding of the string, a list of bytes: a high
  surrogate followed by a low surrogate is one code point, every other code unit is a code
  point of its own, and a surrogate without its partner is replaced by U+FFFD.
  \<^verbatim>\<open>.toString('base64')\<close> is the base64 encoding of RFC 4648 with padding. Both are
  functions of the runtime, not of the repository: they are written out here as the
  runtime documents them. A byte is a \<open>char\<close>.
\<close>

definition high_surrogate :: "16 word \<Rightarrow> bool" where
  "high_surrogate u = (0xD800 \<le> uint u \<and> uint u < 0xDC00)"

definition low_surrogate :: "16 word \<Rightarrow> bool" where
  "low_surrogate u = (0xDC00 \<le> uint u \<and> uint u < 0xE000)"

definition unpaired :: "16 word \<Rightarrow> int" where
  "unpaired u = (if high_surrogate u \<or> low_surrogate u then 0xFFFD else uint u)"

definition surrogate_pair :: "16 word \<Rightarrow> 16 word \<Rightarrow> int" where
  "surrogate_pair u l = 0x10000 + (uint u - 0xD800) * 1024 + (uint l - 0xDC00)"

fun code_points :: "js_string \<Rightarrow> int list" where
  "code_points [] = []"
| "code_points [u] = [unpaired u]"
| "code_points (u # l # rest) =
     (if high_surrogate u \<and> low_surrogate l
      then surrogate_pair u l # code_points rest
      else unpaired u # code_points (l # rest))"

definition utf8_bytes :: "int \<Rightarrow> char list" where
  "utf8_bytes cp =
     (if cp < 0x80 then [char_of cp]
      else if cp < 0x800 then [char_of (0xC0 + cp div 64), char_of (0x80 + cp mod 64)]
      else if cp < 0x10000
      then [char_of (0xE0 + cp div 4096), char_of (0x80 + cp div 64 mod 64),
            char_of (0x80 + cp mod 64)]
      else [char_of (0xF0 + cp div 262144), char_of (0x80 + cp div 4096 mod 64),
            char_of (0x80 + cp div 64 mod 64), char_of (0x80 + cp mod 64)])"

definition Buffer_from :: "js_string \<Rightarrow> char list" where
  "Buffer_from s = concat (map utf8_bytes (code_points s))"

definition b64_char :: "nat \<Rightarrow> char" where
  "b64_char n =
     (if n < 26 then char_of (65 + n)
      else if n < 52 then char_of (71 + n)
      else if n < 62 then char_of (n - 4)
      else if n = 62 then CHR ''+'' else CHR ''/'')"

fun toString_base64 :: "char list \<Rightarrow> string" where
  "toString_base64 [] = []"
| "toString_base64 [a] =
     (let x = (of_char a :: nat)
      in [b64_char (x div 4), b64_char ((x mod 4) * 16), CHR ''='', CHR ''=''])"
| "toString_base64 [a, b] =
     (let x = (of_char a :: nat); y = (of_char b :: nat)
      in [b64_char (x div 4), b64_char ((x mod 4) * 16 + y div 16),
          b64_char ((y mod 16) * 4), CHR ''=''])"
| "toString_base64 (a # b # c # rest) =
     (let x = (of_char a :: nat); y = (of_char b :: nat); z = (of_char c :: nat)
      in [b64_char (x div 4), b64_char ((x mod 4) * 16 + y div 16),
          b64_char ((y mod 16) * 4 + z div 64), b64_char (z mod 64)]
         @ toString_base64 rest)"

text \<open>
  The launched command line decodes with \<^verbatim>\<open>base64 -d\<close>, which reads what
  \<^verbatim>\<open>echo\<close> wrote: the payload and a newline. The decoder skips newlines and reads
  groups of four characters of the alphabet, the last one or two of a group possibly
  padding; on any other input the model gives no answer (\<open>None\<close>).
\<close>

definition b64_index :: "char \<Rightarrow> nat option" where
  "b64_index c =
     (let n = (of_char c :: nat) in
      if 65 \<le> n \<and> n \<le> 90 then Some (n - 65)
      else if 97 \<le> n \<and> n \<le> 122 then Some (n - 71)
      else if 48 \<le> n \<and> n \<le> 57 then Some (n + 4)
      else if n = 43 then Some 62
      else if n = 47 then Some 63
      else None)"




definition claude_cmd :: "string \<Rightarrow> string \<Rightarrow> string" where
  "claude_cmd workingDir promptBase64 =
     ''cd '' @ JSON_stringify workingDir @ '' && echo '' @ JSON_stringify promptBase64
       @ '' | base64 -d | '' @ CLAUDE_BINARY
       @ '' --dangerously-skip-permissions --output-format stream-json --verbose -p -''"

definition new_session_cmd :: "string \<Rightarrow> string \<Rightarrow> string" where
  "new_session_cmd s claudeCmd =
     ''tmux new-session -d -s '' @ s @ '' -x 200 -y 50 '' @ JSON_stringify claudeCmd"

section \<open>Starting a task and waiting for it\<close>

text \<open>
  While a \<^verbatim>\<open>start\<close> waits, it sleeps between two polls, and operations of other callers
  run. A \<open>call\<close> is one of the five operations that look a task up, with the values it
  obtains from outside.
\<close>

datatype call =
    Status string ExecuteResult int int ExecuteResult
  | Output string "int option" ExecuteResult int ExecuteResult
  | Send string string ExecuteResult int ExecuteResult
  | ListSessions "string \<Rightarrow> ExecuteResult" "string \<Rightarrow> int" "string \<Rightarrow> int"
  | Stop string ExecuteResult int

fun run_call :: "call \<Rightarrow> registry \<Rightarrow> registry \<times> string list" where
  "run_call (Status tid chk now_end now_rt cap) tasks =
     snd (getClaudeCodeStatus tasks tid chk now_end now_rt cap)"
| "run_call (Output tid lines chk now_end cap) tasks =
     snd (getClaudeCodeOutput tasks tid lines chk now_end cap)"
| "run_call (Send tid message chk now_end res) tasks =
     snd (sendToClaudeCode tasks tid message chk now_end res)"
| "run_call (ListSessions check now_end now_rt) tasks =
     snd (listClaudeCodeSessions tasks check now_end now_rt)"
| "run_call (Stop tid res now_end) tasks =
     snd (stopClaudeCodeTask tasks tid res now_end)"

fun run_calls :: "call list \<Rightarrow> registry \<Rightarrow> registry \<times> string list" where
  "run_calls [] tasks = (tasks, [])"
| "run_calls (c # cs) tasks =
     (let (tasks1, cmds1) = run_call c tasks;
          (tasks2, cmds2) = run_calls cs tasks1
      in (tasks2, cmds1 @ cmds2))"

text \<open>
  One round of the wait loop: the clock reading of the loop condition, the result of the
  liveness check, what the branch for an ended session obtains (its clock reading, and
  the check, clock reading and capture of the nested \<^verbatim>\<open>getClaudeCodeOutput\<close>), and
  the calls of other callers that run to completion while this round sleeps.
\<close>

record poll =
  loop_now :: int
  poll_check :: ExecuteResult
  done_now :: int
  output_check :: ExecuteResult
  output_now :: int
  output_capture :: ExecuteResult
  during_sleep :: "call list"

definition mutate :: "registry \<Rightarrow> string \<Rightarrow> (ClaudeCodeTask \<Rightarrow> ClaudeCodeTask) \<Rightarrow> registry" where
  \<comment> \<open>an assignment to fields of the local object \<^verbatim>\<open>task\<close>, which is the registry's entry\<close>
  "mutate tasks tid f =
     (case tasks_get tasks tid of None \<Rightarrow> tasks | Some task \<Rightarrow> tasks_set tasks tid (f task))"

text \<open>
  The loop has no bound of its own on the number of rounds: it runs as long as the clock
  readings stay below the deadline and the session is reported alive. The model runs it
  on the rounds it is given, and returns \<open>None\<close> as its result when they are used up
  with the loop still going.
\<close>

fun waitLoop ::
  "registry \<Rightarrow> string \<Rightarrow> string \<Rightarrow> int \<Rightarrow> int \<Rightarrow> poll list
     \<Rightarrow> StartResult option \<times> registry \<times> string list" where
  "waitLoop tasks tid session startT timeoutMs [] = (None, tasks, [])"
| "waitLoop tasks tid session startT timeoutMs (p # ps) =
     (if loop_now p - startT < timeoutMs
      then
        (if session_gone (poll_check p)
         then
           (let tasks1 = mutate tasks tid (mark_completed (done_now p));
                (outputResult, tasks2, cmds) =
                   getClaudeCodeOutput tasks1 tid None
                     (output_check p) (output_now p) (output_capture p);
                outputText = (case outputResult of Inr r \<Rightarrow> output_r r | Inl e \<Rightarrow> ''(no output)'')
            in (Some \<lparr>taskId_t = tid, status_t = completed, output_t = Some outputText\<rparr>,
                tasks2, has_session_cmd session # cmds))
         else
           (let (tasks1, cmds1) = run_calls (during_sleep p) tasks;
                (res, tasks2, cmds2) = waitLoop tasks1 tid session startT timeoutMs ps
            in (res, tasks2, has_session_cmd session # cmds1 @ cmds2)))
      else (Some \<lparr>taskId_t = tid, status_t = running,
                  output_t = Some ''Task still running after timeout''\<rparr>,
            tasks, []))"

record start_env =
  id_now :: int
  start_now :: int
  create_result :: ExecuteResult
  fail_now :: int
  wait_now :: int
  polls :: "poll list"

definition startClaudeCodeTask ::
  "registry \<Rightarrow> js_string \<Rightarrow> string \<Rightarrow> bool \<Rightarrow> int \<Rightarrow> start_env
     \<Rightarrow> StartResult option \<times> registry \<times> string list" where
  "startClaudeCodeTask tasks prompt' workingDir waitForCompletion timeoutSeconds env =
     (let tid = generateTaskId (id_now env);
          session = getTmuxSession tid;
          task = \<lparr>taskId = tid, prompt = prompt', workingDirectory = workingDir,
                  status = running, startTime = start_now env, endTime = None,
                  exitCode = None, tmuxSession = session\<rparr>;
          tasks1 = tasks_set tasks tid task;
          promptBase64 = toString_base64 (Buffer_from prompt');
          claudeCmd = claude_cmd workingDir promptBase64;
          createCmd = new_session_cmd session claudeCmd
      in if ExecuteResult.exitCode (create_result env) \<noteq> 0
         then (Some \<lparr>taskId_t = tid, status_t = failed,
                      output_t = Some (''Failed to start tmux session: '' @ stderr (create_result env))\<rparr>,
               mutate tasks1 tid (\<lambda>t. t\<lparr>status := failed, endTime := Some (fail_now env)\<rparr>),
               [createCmd])
         else if \<not> waitForCompletion
         then (Some \<lparr>taskId_t = tid, status_t = running, output_t = None\<rparr>, tasks1, [createCmd])
         else (let (res, tasks2, cmds) =
                     waitLoop tasks1 tid session (wait_now env) (timeoutSeconds * 1000) (polls env)
               in (res, tasks2, createCmd # cmds)))"

section \<open>Sequences of operations\<close>

datatype operation =
    Start js_string string bool int start_env
  | Call call

fun apply_op :: "operation \<Rightarrow> registry \<Rightarrow> registry" where
  "apply_op (Start p wd w t env) tasks = fst (snd (startClaudeCodeTask tasks p wd w t env))"
| "apply_op (Call c) tasks = fst (run_call c tasks)"

fun run_ops :: "operation list \<Rightarrow> registry \<Rightarrow> registry" where
  "run_ops [] tasks = tasks"
| "run_ops (x # xs) tasks = run_ops xs (apply_op x tasks)"

section \<open>The command runner and the shell\<close>

text \<open>
  \<^verbatim>\<open>executeCommand\<close> hands the command line to \<^verbatim>\<open>/bin/bash\<close> through the runtime's
  \<^verbatim>\<open>exec\<close>, which either resolves with what the process wrote, or rejects with an error
  object that may carry the output, the exit code and a message.
\<close>

datatype exec_outcome =
    Resolved string string
  | Rejected "string option" "string option" "int option" string

fun executeCommand :: "exec_outcome \<Rightarrow> ExecuteResult" where
  "executeCommand (Resolved out err) = \<lparr>stdout = trim out, stderr = trim err, exitCode = 0\<rparr>"
| "executeCommand (Rejected out err code msg) =
     \<lparr>stdout = (case out of None \<Rightarrow> [] | Some s \<Rightarrow> trim s),
      stderr = (case err of None \<Rightarrow> msg | Some s \<Rightarrow> or_else (trim s) msg),
      exitCode = (case code of None \<Rightarrow> 1 | Some n \<Rightarrow> if n = 0 then 1 else n)\<rparr>"

text \<open>
  Two of the command lines are small shell programs. For a command \<open>c\<close> that writes
  \<open>out\<close> to its standard output and exits with status \<open>code\<close>, the shell runs
  \<^verbatim>\<open>c 2>/dev/null && echo a || echo b\<close> and \<^verbatim>\<open>c 2>/dev/null || echo b\<close> as follows; the
  last command run is an \<^verbatim>\<open>echo\<close>, or \<open>c\<close> with status 0, so \<^verbatim>\<open>exec\<close> resolves.
\<close>

definition sh_and_or_echo :: "string \<Rightarrow> int \<Rightarrow> string \<Rightarrow> string \<Rightarrow> exec_outcome" where
  "sh_and_or_echo out code a b = Resolved (out @ (if code = 0 then a else b) @ [CHR 0x0A]) []"

definition sh_or_echo :: "string \<Rightarrow> int \<Rightarrow> string \<Rightarrow> exec_outcome" where
  "sh_or_echo out code b = Resolved (if code = 0 then out else out @ b @ [CHR 0x0A]) []"

definition session_check :: "int \<Rightarrow> ExecuteResult" where
  \<comment> \<open>the liveness check, when \<^verbatim>\<open>tmux has-session\<close> writes nothing and exits with \<open>code\<close>\<close>
  "session_check code = executeCommand (sh_and_or_echo [] code ''running'' ''done'')"

definition capture_pane :: "string \<Rightarrow> int \<Rightarrow> ExecuteResult" where
  \<comment> \<open>the capture, when \<^verbatim>\<open>tmux capture-pane\<close> writes \<open>out\<close> and exits with \<open>code\<close>\<close>
  "capture_pane out code = executeCommand (sh_or_echo out code ''(session ended)'')"

section \<open>What the session launches\<close>



















section \<open>Reading the bytes back as text\<close>







section \<open>Predicates used in the statements\<close>

definition endTime_iff_not_running :: "ClaudeCodeTask \<Rightarrow> bool" where
  "endTime_iff_not_running task = ((endTime task \<noteq> None) = (status task \<noteq> running))"

definition endTime_inv :: "registry \<Rightarrow> bool" where
  "endTime_inv tasks = list_all (\<lambda>(k, task). endTime_iff_not_running task) tasks"

definition is_query :: "call \<Rightarrow> bool" where
  \<comment> \<open>a call of \<^verbatim>\<open>getClaudeCodeStatus\<close> or \<^verbatim>\<open>getClaudeCodeOutput\<close>\<close>
  "is_query c = (case c of Status _ _ _ _ _ \<Rightarrow> True | Output _ _ _ _ _ \<Rightarrow> True | _ \<Rightarrow> False)"

definition b64_alphabet :: "char \<Rightarrow> bool" where
  "b64_alphabet c = (c = CHR ''='' \<or> b64_index c \<noteq> None)"



section \<open>Example values\<close>

definition exec_ok :: ExecuteResult where
  "exec_ok = \<lparr>stdout = [], stderr = [], exitCode = 0\<rparr>"

definition exec_failed :: ExecuteResult where
  "exec_failed = \<lparr>stdout = [], stderr = ''no server running'', exitCode = 1\<rparr>"

definition exec_duplicate :: ExecuteResult where
  \<comment> \<open>what \<^verbatim>\<open>tmux new-session\<close> answers when the session name is taken\<close>
  "exec_duplicate = \<lparr>stdout = [], stderr = ''duplicate session: claude-task-1000'', exitCode = 1\<rparr>"

definition demo_task :: "TaskStatus \<Rightarrow> int option \<Rightarrow> ClaudeCodeTask" where
  "demo_task s e =
     \<lparr>taskId = ''task-1000'', prompt = code_units ''run the tests'', workingDirectory = ''/srv/app'',
      status = s, startTime = 1000, endTime = e, exitCode = None,
      tmuxSession = ''claude-task-1000''\<rparr>"

definition quiet_poll :: "int \<Rightarrow> int \<Rightarrow> poll" where
  \<comment> \<open>a round at clock reading \<open>t\<close> whose liveness check exits with \<open>code\<close>, nobody else calling\<close>
  "quiet_poll t code =
     \<lparr>loop_now = t, poll_check = session_check code, done_now = t + 1,
      output_check = session_check code, output_now = t + 2,
      output_capture = capture_pane [] code, during_sleep = []\<rparr>"

definition demo_env :: "ExecuteResult \<Rightarrow> poll list \<Rightarrow> start_env" where
  "demo_env created ps =
     \<lparr>id_now = 1000, start_now = 1000, create_result = created, fail_now = 1003,
      wait_now = 1004, polls = ps\<rparr>"

definition stop_during_wait :: "poll list" where
  \<comment> \<open>another caller stops the task while the first round sleeps; the second round finds the session gone\<close>
  "stop_during_wait =
     [(quiet_poll 1005 0)\<lparr>during_sleep := [Stop ''task-1000'' exec_ok 1500]\<rparr>,
      quiet_poll 2010 1]"

definition demo_instruction :: js_string where
  \<comment> \<open>quotes, shell characters, a newline, and the characters U+00E9, U+20AC and U+1F600\<close>
  \<open>demo_instruction =
     code_units ''say "hi" && echo `date` > $HOME/out'' @ [0x0A, 0xE9, 0x20AC, 0xD83D, 0xDE00]\<close>


section \<open>The registry\<close>

lemma tasks_get_set [simp]:
  "tasks_get (tasks_set tasks k v) k' = (if k' = k then Some v else tasks_get tasks k')"
  by (induction tasks k v rule: tasks_set.induct) (auto simp: tasks_get_def)

lemma tasks_set_twice [simp]: "tasks_set (tasks_set tasks k v) k v' = tasks_set tasks k v'"
  by (induction tasks k v rule: tasks_set.induct) auto

lemma tasks_get_map:
  "tasks_get (map (\<lambda>(k, task). (k, f task)) tasks) k = map_option f (tasks_get tasks k)"
  by (induction tasks) (auto simp: tasks_get_def)

section \<open>The shell lines\<close>

lemma session_check_gone: "session_gone (session_check code) = (code \<noteq> 0)"
  by (simp add: session_gone_def session_check_def sh_and_or_echo_def trim_def isWhiteSpace_def)

lemma capture_pane_failed: "code \<noteq> 0 \<Longrightarrow> stdout (capture_pane [] code) = ''(session ended)''"
  by (simp add: capture_pane_def sh_or_echo_def trim_def isWhiteSpace_def)

section \<open>Every operation keeps the invariant of the end time\<close>

lemma endTime_inv_set:
  "endTime_inv tasks \<Longrightarrow> endTime_iff_not_running v \<Longrightarrow> endTime_inv (tasks_set tasks k v)"
  by (induction tasks k v rule: tasks_set.induct) (auto simp: endTime_inv_def)

lemma endTime_inv_member:
  "endTime_inv tasks \<Longrightarrow> (k, task) \<in> set tasks \<Longrightarrow> endTime_iff_not_running task"
  by (auto simp: endTime_inv_def list_all_iff)

lemma endTime_mark_completed: "endTime_iff_not_running (mark_completed now task)"
  by (simp add: endTime_iff_not_running_def mark_completed_def)

lemma endTime_inv_mutate:
  "endTime_inv tasks \<Longrightarrow> (\<And>task. endTime_iff_not_running (f task)) \<Longrightarrow>
   endTime_inv (mutate tasks k f)"
  by (simp add: mutate_def endTime_inv_set split: option.splits)

lemma endTime_inv_status:
  "endTime_inv tasks \<Longrightarrow> endTime_inv (fst (snd (getClaudeCodeStatus tasks tid chk n1 n2 cap)))"
  by (simp add: getClaudeCodeStatus_def Let_def endTime_inv_set endTime_mark_completed
      split: option.splits)

lemma endTime_inv_output:
  "endTime_inv tasks \<Longrightarrow> endTime_inv (fst (snd (getClaudeCodeOutput tasks tid lines chk n1 cap)))"
  by (simp add: getClaudeCodeOutput_def Let_def endTime_inv_set endTime_mark_completed
      split: option.splits)

lemma endTime_inv_send:
  "endTime_inv tasks \<Longrightarrow> endTime_inv (fst (snd (sendToClaudeCode tasks tid message chk n1 res)))"
  by (simp add: sendToClaudeCode_def Let_def endTime_inv_set endTime_mark_completed
      split: option.splits)

lemma endTime_inv_stop:
  "endTime_inv tasks \<Longrightarrow> endTime_inv (fst (snd (stopClaudeCodeTask tasks tid res n1)))"
  by (simp add: stopClaudeCodeTask_def Let_def endTime_inv_set endTime_iff_not_running_def
      split: option.splits)

lemma endTime_reconcile_task:
  "endTime_iff_not_running task \<Longrightarrow> endTime_iff_not_running (reconcile_task check now_end task)"
  by (simp add: reconcile_task_def endTime_mark_completed)

lemma endTime_inv_list:
  "endTime_inv tasks \<Longrightarrow> endTime_inv (fst (snd (listClaudeCodeSessions tasks check n1 n2)))"
  by (auto simp: listClaudeCodeSessions_def Let_def endTime_inv_def list_all_iff
      endTime_reconcile_task)

lemma endTime_inv_call: "endTime_inv tasks \<Longrightarrow> endTime_inv (fst (run_call c tasks))"
  by (cases c)
    (simp_all add: endTime_inv_status endTime_inv_output endTime_inv_send endTime_inv_stop
       endTime_inv_list)

lemma endTime_inv_calls: "endTime_inv tasks \<Longrightarrow> endTime_inv (fst (run_calls cs tasks))"
  by (induction cs arbitrary: tasks) (auto simp: split_beta Let_def endTime_inv_call)

lemma endTime_inv_waitLoop:
  "endTime_inv tasks \<Longrightarrow>
   endTime_inv (fst (snd (waitLoop tasks tid session startT timeoutMs ps)))"
proof (induction ps arbitrary: tasks)
  case Nil
  then show ?case by simp
next
  case (Cons p ps)
  have gone: "endTime_inv (fst (snd (getClaudeCodeOutput
        (mutate tasks tid (mark_completed (done_now p))) tid None
        (output_check p) (output_now p) (output_capture p))))"
    by (intro endTime_inv_output endTime_inv_mutate Cons.prems endTime_mark_completed)
  have alive: "endTime_inv (fst (snd (waitLoop (fst (run_calls (during_sleep p) tasks))
        tid session startT timeoutMs ps)))"
    by (intro Cons.IH endTime_inv_calls Cons.prems)
  show ?case
    using gone alive Cons.prems by (simp add: split_beta Let_def)
qed

lemma endTime_inv_start:
  "endTime_inv tasks \<Longrightarrow> endTime_inv (fst (snd (startClaudeCodeTask tasks p wd w t env)))"
  by (simp add: startClaudeCodeTask_def Let_def split_beta endTime_inv_waitLoop
      endTime_inv_mutate endTime_inv_set endTime_iff_not_running_def)

lemma endTime_inv_op: "endTime_inv tasks \<Longrightarrow> endTime_inv (apply_op x tasks)"
  by (cases x) (simp_all add: endTime_inv_start endTime_inv_call)

lemma endTime_inv_ops: "endTime_inv tasks \<Longrightarrow> endTime_inv (run_ops xs tasks)"
  by (induction xs arbitrary: tasks) (simp_all add: endTime_inv_op)

section \<open>What the five calls leave alone\<close>

lemma terminal_call:
  "tasks_get tasks k = Some task \<Longrightarrow> status task \<noteq> running \<Longrightarrow>
   tasks_get (fst (run_call c tasks)) k = Some task"
  by (cases c)
    (auto simp: getClaudeCodeStatus_def getClaudeCodeOutput_def sendToClaudeCode_def
       stopClaudeCodeTask_def listClaudeCodeSessions_def Let_def tasks_get_map reconcile_task_def
       split: option.splits)

lemma terminal_calls:
  "tasks_get tasks k = Some task \<Longrightarrow> status task \<noteq> running \<Longrightarrow>
   tasks_get (fst (run_calls cs tasks)) k = Some task"
  by (induction cs arbitrary: tasks) (auto simp: split_beta Let_def terminal_call)

lemma call_keeps_key:
  "tasks_get tasks k \<noteq> None \<Longrightarrow> tasks_get (fst (run_call c tasks)) k \<noteq> None"
  by (cases c)
    (auto simp: getClaudeCodeStatus_def getClaudeCodeOutput_def sendToClaudeCode_def
       stopClaudeCodeTask_def listClaudeCodeSessions_def Let_def tasks_get_map
       split: option.splits)

lemma calls_keep_key:
  "tasks_get tasks k \<noteq> None \<Longrightarrow> tasks_get (fst (run_calls cs tasks)) k \<noteq> None"
  by (induction cs arbitrary: tasks)
    (auto simp: split_beta Let_def call_keeps_key simp del: not_None_eq)

lemma mutate_keeps_key:
  "tasks_get tasks k \<noteq> None \<Longrightarrow> tasks_get (mutate tasks tid f) k \<noteq> None"
  by (auto simp: mutate_def split: option.splits)

lemma output_keeps_key:
  "tasks_get tasks k \<noteq> None \<Longrightarrow>
   tasks_get (fst (snd (getClaudeCodeOutput tasks tid lines chk n1 cap))) k \<noteq> None"
  using call_keeps_key [of tasks k "Output tid lines chk n1 cap"] by simp

lemma run_calls_append:
  "fst (run_calls (cs @ ds) tasks) = fst (run_calls ds (fst (run_calls cs tasks)))"
  by (induction cs arbitrary: tasks) (simp_all add: split_beta Let_def)

section \<open>The wait loop\<close>

lemma waitLoop_keeps_key:
  "tasks_get tasks k \<noteq> None \<Longrightarrow>
   tasks_get (fst (snd (waitLoop tasks tid session startT timeoutMs ps))) k \<noteq> None"
proof (induction ps arbitrary: tasks)
  case Nil
  then show ?case by simp
next
  case (Cons p ps)
  have gone: "tasks_get (fst (snd (getClaudeCodeOutput
        (mutate tasks tid (mark_completed (done_now p))) tid None
        (output_check p) (output_now p) (output_capture p)))) k \<noteq> None"
    by (intro output_keeps_key mutate_keeps_key Cons.prems)
  have alive: "tasks_get (fst (snd (waitLoop (fst (run_calls (during_sleep p) tasks))
        tid session startT timeoutMs ps))) k \<noteq> None"
    by (intro Cons.IH calls_keep_key Cons.prems)
  show ?case
    using gone alive Cons.prems by (simp add: split_beta Let_def del: not_None_eq)
qed

lemma waitLoop_result_id:
  "fst (waitLoop tasks tid session startT timeoutMs ps) = Some r \<Longrightarrow> taskId_t r = tid"
  by (induction ps arbitrary: tasks) (auto simp: split_beta Let_def split: if_splits)

lemma waitLoop_timeout:
  assumes "\<forall>q\<in>set ps. loop_now q - startT < timeoutMs \<and> \<not> session_gone (poll_check q)"
    and "\<not> loop_now p - startT < timeoutMs"
  shows "fst (waitLoop tasks tid session startT timeoutMs (ps @ p # rest))
           = Some \<lparr>taskId_t = tid, status_t = running,
                   output_t = Some ''Task still running after timeout''\<rparr>
         \<and> fst (snd (waitLoop tasks tid session startT timeoutMs (ps @ p # rest)))
           = fst (run_calls (concat (map during_sleep ps)) tasks)"
  using assms
proof (induction ps arbitrary: tasks)
  case Nil
  then show ?case by simp
next
  case (Cons q ps)
  then show ?case by (simp add: split_beta Let_def run_calls_append)
qed

section \<open>Starting\<close>

lemma start_result_id:
  "fst (startClaudeCodeTask tasks p wd w t env) = Some r \<Longrightarrow>
   taskId_t r = generateTaskId (id_now env)"
  by (auto simp: startClaudeCodeTask_def Let_def split_beta split: if_splits
      dest: waitLoop_result_id)

lemma start_registers:
  "tasks_get (fst (snd (startClaudeCodeTask tasks p wd w t env))) (generateTaskId (id_now env))
     \<noteq> None"
  by (simp add: startClaudeCodeTask_def Let_def split_beta waitLoop_keeps_key mutate_def
      del: not_None_eq)

lemma status_known:
  "tasks_get tasks tid \<noteq> None \<Longrightarrow> \<exists>s. fst (getClaudeCodeStatus tasks tid chk n1 n2 cap) = Inr s"
  by (auto simp: getClaudeCodeStatus_def Let_def)

lemma start_failed:
  "ExecuteResult.exitCode (create_result env) \<noteq> 0 \<Longrightarrow>
   startClaudeCodeTask tasks p wd w t env
     = (Some \<lparr>taskId_t = generateTaskId (id_now env), status_t = failed,
              output_t = Some (''Failed to start tmux session: '' @ stderr (create_result env))\<rparr>,
        tasks_set tasks (generateTaskId (id_now env))
          \<lparr>taskId = generateTaskId (id_now env), prompt = p, workingDirectory = wd,
           status = failed, startTime = start_now env, endTime = Some (fail_now env),
           exitCode = None, tmuxSession = getTmuxSession (generateTaskId (id_now env))\<rparr>,
        [new_session_cmd (getTmuxSession (generateTaskId (id_now env)))
           (claude_cmd wd (toString_base64 (Buffer_from p)))])"
  by (simp add: startClaudeCodeTask_def Let_def mutate_def)

section \<open>The base64 alphabet and its sextets\<close>
















lemma json_escape_alphabet: "b64_alphabet c \<Longrightarrow> json_escape c = [c]"
  by (auto simp: b64_alphabet_def b64_index_def json_escape_def Let_def split: if_splits)

lemma json_alphabet: "list_all b64_alphabet s \<Longrightarrow> concat (map json_escape s) = s"
  by (induction s) (auto simp: json_escape_alphabet)


lemma rfc4648_test_vectors:
  "toString_base64 ''f'' = ''Zg==''"
  "toString_base64 ''fo'' = ''Zm8=''"
  "toString_base64 ''foo'' = ''Zm9v''"
  "toString_base64 ''foob'' = ''Zm9vYg==''"
  "toString_base64 ''fooba'' = ''Zm9vYmE=''"
  "toString_base64 ''foobar'' = ''Zm9vYmFy''"
  by code_simp+


section \<open>The instruction as UTF-8 and back\<close>









lemma of_char_of_int: "0 \<le> k \<Longrightarrow> k < 256 \<Longrightarrow> (of_char (char_of (k::int)) :: int) = k"
  by simp









section \<open>The shell on the command lines of a start\<close>

































lemma demo_payload:
  "toString_base64 (Buffer_from demo_instruction)
     = ''c2F5ICJoaSIgJiYgZWNobyBgZGF0ZWAgPiAkSE9NRS9vdXQKw6nigqzwn5iA''"
  by code_simp

section \<open>The claims\<close>

text \<open>
  C1. Terminal states are meant to be absorbing, also against a wait loop of
  \<^verbatim>\<open>startClaudeCodeTask\<close> that is still running. The wait loop marks the task completed
  when its poll finds the session gone, without looking at the status, unlike
  \<^verbatim>\<open>getClaudeCodeStatus\<close>, \<^verbatim>\<open>getClaudeCodeOutput\<close> and \<^verbatim>\<open>listClaudeCodeSessions\<close>.
  Here another caller stops the task while the first round sleeps: the task is stopped with
  end time 1500 when the second round begins, and the second round turns it into a
  completed task with end time 2011 and reports completed to the waiting caller.
\<close>

theorem wait_loop_overwrites_stopped:
  "fst (snd (startClaudeCodeTask [] (code_units ''run the tests'') ''/srv/app'' True 300
              (demo_env exec_ok (take 1 stop_during_wait))))
     = [(''task-1000'', demo_task stopped (Some 1500))]
   \<and> fst (startClaudeCodeTask [] (code_units ''run the tests'') ''/srv/app'' True 300
              (demo_env exec_ok stop_during_wait))
     = Some \<lparr>taskId_t = ''task-1000'', status_t = completed, output_t = Some ''(session ended)''\<rparr>
   \<and> fst (snd (startClaudeCodeTask [] (code_units ''run the tests'') ''/srv/app'' True 300
              (demo_env exec_ok stop_during_wait)))
     = [(''task-1000'', demo_task completed (Some 2011))]"
  by code_simp

text \<open>
  C2. Task identifiers are meant to be unique. \<^verbatim>\<open>generateTaskId\<close> derives the identifier
  from the clock reading alone, so two starts that read the same millisecond get the same
  identifier: the second start returns the identifier of the first, and \<^verbatim>\<open>tasks.set\<close>
  replaces the record of the first task, which still runs in its session, by the record of
  the second, whose session could not be created under the name already taken.
\<close>

theorem same_clock_reading_same_id:
  "fst (startClaudeCodeTask [] (code_units ''first'') ''/srv/a'' False 300 (demo_env exec_ok []))
     = Some \<lparr>taskId_t = ''task-1000'', status_t = running, output_t = None\<rparr>
   \<and> map (\<lambda>(k, task). (k, prompt task, status task))
        (fst (snd (startClaudeCodeTask [] (code_units ''first'') ''/srv/a'' False 300 (demo_env exec_ok []))))
     = [(''task-1000'', code_units ''first'', running)]
   \<and> fst (startClaudeCodeTask
            (fst (snd (startClaudeCodeTask [] (code_units ''first'') ''/srv/a'' False 300 (demo_env exec_ok []))))
            (code_units ''second'') ''/srv/b'' False 300 (demo_env exec_duplicate []))
     = Some \<lparr>taskId_t = ''task-1000'', status_t = failed,
             output_t = Some ''Failed to start tmux session: duplicate session: claude-task-1000''\<rparr>
   \<and> map (\<lambda>(k, task). (k, prompt task, status task))
        (fst (snd (startClaudeCodeTask
            (fst (snd (startClaudeCodeTask [] (code_units ''first'') ''/srv/a'' False 300 (demo_env exec_ok []))))
            (code_units ''second'') ''/srv/b'' False 300 (demo_env exec_duplicate []))))
     = [(''task-1000'', code_units ''second'', failed)]"
  by code_simp

text \<open>
  C3. After any sequence of the six operations on the empty registry, every task in the
  registry has its end time set if and only if its status is not running; and every single
  operation, from any registry where this holds, leads to a registry where it holds, so a
  step that leaves running sets the end time in the same step.
\<close>

theorem endTime_set_iff_not_running:
  "((k, task) \<in> set (run_ops xs []) \<longrightarrow> (endTime task \<noteq> None) = (status task \<noteq> running))
   \<and> (endTime_inv tasks \<longrightarrow> endTime_inv (apply_op x tasks))"
proof -
  have "endTime_inv []" by (simp add: endTime_inv_def)
  then have "endTime_inv (run_ops xs [])" by (rule endTime_inv_ops)
  then show ?thesis
    by (auto dest: endTime_inv_member simp: endTime_iff_not_running_def endTime_inv_op)
qed

theorem endTime_set_iff_not_running_witness:
  "(''task-1000'', demo_task completed (Some 2011))
     \<in> set (run_ops [Start (code_units ''run the tests'') ''/srv/app'' True 300
                         (demo_env exec_ok [quiet_poll 1005 0, quiet_poll 2010 1]),
                      Call (Stop ''task-1000'' exec_ok 3000)] [])
   \<and> (endTime (demo_task completed (Some 2011)) \<noteq> None)
       = (status (demo_task completed (Some 2011)) \<noteq> running)
   \<and> endTime_inv [(''task-1000'', demo_task running None)]
   \<and> endTime_inv (apply_op (Call (Stop ''task-1000'' exec_failed 3000))
                     [(''task-1000'', demo_task running None)])"
proof -
  have m: "(''task-1000'', demo_task completed (Some 2011))
     \<in> set (run_ops [Start (code_units ''run the tests'') ''/srv/app'' True 300
                         (demo_env exec_ok [quiet_poll 1005 0, quiet_poll 2010 1]),
                      Call (Stop ''task-1000'' exec_ok 3000)] [])"
    by code_simp
  have i: "endTime_inv [(''task-1000'', demo_task running None)]"
    by code_simp
  from m i
    endTime_set_iff_not_running [of "''task-1000''" "demo_task completed (Some 2011)"
      "[Start (code_units ''run the tests'') ''/srv/app'' True 300
          (demo_env exec_ok [quiet_poll 1005 0, quiet_poll 2010 1]),
        Call (Stop ''task-1000'' exec_ok 3000)]"
      "[(''task-1000'', demo_task running None)]"
      "Call (Stop ''task-1000'' exec_failed 3000)"]
  show ?thesis by blast
qed

text \<open>
  C4. \<^verbatim>\<open>stopClaudeCodeTask\<close>: an unknown identifier or a task that is not running gives
  \<open>stopped = False\<close> with an error, an unchanged registry and no command; a running task is
  marked stopped with the end time set and \<open>stopped = True\<close> is returned, whatever the
  kill command returned; a second stop then fails with the not-running error.
\<close>

theorem stop_contract:
  "(tasks_get tasks tid = None \<longrightarrow>
      stopClaudeCodeTask tasks tid killResult now
        = (\<lparr>stopped_r = False, error_p = Some (''Task not found: '' @ tid)\<rparr>, tasks, []))
   \<and> (\<forall>task. tasks_get tasks tid = Some task \<and> status task \<noteq> running \<longrightarrow>
      stopClaudeCodeTask tasks tid killResult now
        = (\<lparr>stopped_r = False,
            error_p = Some (''Task is not running (status: '' @ status_toString (status task) @ '')'')\<rparr>,
           tasks, []))
   \<and> (\<forall>task. tasks_get tasks tid = Some task \<and> status task = running \<longrightarrow>
      stopClaudeCodeTask tasks tid killResult now
        = (\<lparr>stopped_r = True, error_p = None\<rparr>,
           tasks_set tasks tid (task\<lparr>status := stopped, endTime := Some now\<rparr>),
           [kill_session_cmd (tmuxSession task)])
      \<and> (\<forall>killResult2 now2.
            stopClaudeCodeTask (tasks_set tasks tid (task\<lparr>status := stopped, endTime := Some now\<rparr>))
                tid killResult2 now2
              = (\<lparr>stopped_r = False, error_p = Some ''Task is not running (status: stopped)''\<rparr>,
                 tasks_set tasks tid (task\<lparr>status := stopped, endTime := Some now\<rparr>), [])))"
  by (simp add: stopClaudeCodeTask_def)

theorem stop_contract_witness:
  "stopClaudeCodeTask [] ''task-7'' exec_failed 3000
     = (\<lparr>stopped_r = False, error_p = Some ''Task not found: task-7''\<rparr>, [], [])
   \<and> stopClaudeCodeTask [(''task-1000'', demo_task failed (Some 1003))] ''task-1000'' exec_ok 3000
     = (\<lparr>stopped_r = False, error_p = Some ''Task is not running (status: failed)''\<rparr>,
        [(''task-1000'', demo_task failed (Some 1003))], [])
   \<and> stopClaudeCodeTask [(''task-1000'', demo_task running None)] ''task-1000'' exec_failed 3000
     = (\<lparr>stopped_r = True, error_p = None\<rparr>,
        [(''task-1000'', demo_task stopped (Some 3000))],
        [''tmux kill-session -t claude-task-1000 2>/dev/null''])
   \<and> stopClaudeCodeTask [(''task-1000'', demo_task stopped (Some 3000))] ''task-1000'' exec_ok 4000
     = (\<lparr>stopped_r = False, error_p = Some ''Task is not running (status: stopped)''\<rparr>,
        [(''task-1000'', demo_task stopped (Some 3000))], [])"
  using stop_contract [of "[]" "''task-7''" exec_failed 3000]
    stop_contract [of "[(''task-1000'', demo_task failed (Some 1003))]" "''task-1000''" exec_ok 3000]
    stop_contract [of "[(''task-1000'', demo_task running None)]" "''task-1000''" exec_failed 3000]
  by (simp add: tasks_get_def demo_task_def kill_session_cmd_def)



text \<open>
  C6. \<^verbatim>\<open>startClaudeCodeTask\<close> registers a task under the identifier it returns, so
  \<^verbatim>\<open>getClaudeCodeStatus\<close> on that identifier right afterwards answers with a status and not
  with not-found. When the session cannot be created, whatever \<open>waitForCompletion\<close> is, the
  start returns at once with status failed and the diagnostic message, having issued the
  creation command only; the record is failed with the end time set, and its status is
  still failed after any number of status and output queries.
\<close>

theorem start_registers_task:
  "tasks_get (fst (snd (startClaudeCodeTask tasks p wd w t env))) (generateTaskId (id_now env)) \<noteq> None
   \<and> (\<forall>r. fst (startClaudeCodeTask tasks p wd w t env) = Some r \<longrightarrow>
         taskId_t r = generateTaskId (id_now env)
         \<and> (\<forall>chk n1 n2 cap. \<exists>s.
               fst (getClaudeCodeStatus (fst (snd (startClaudeCodeTask tasks p wd w t env)))
                      (taskId_t r) chk n1 n2 cap) = Inr s))
   \<and> (ExecuteResult.exitCode (create_result env) \<noteq> 0 \<longrightarrow>
         startClaudeCodeTask tasks p wd w t env
           = (Some \<lparr>taskId_t = generateTaskId (id_now env), status_t = failed,
                    output_t = Some (''Failed to start tmux session: '' @ stderr (create_result env))\<rparr>,
              tasks_set tasks (generateTaskId (id_now env))
                \<lparr>taskId = generateTaskId (id_now env), prompt = p, workingDirectory = wd,
                 status = failed, startTime = start_now env, endTime = Some (fail_now env),
                 exitCode = None, tmuxSession = getTmuxSession (generateTaskId (id_now env))\<rparr>,
              [new_session_cmd (getTmuxSession (generateTaskId (id_now env)))
                 (claude_cmd wd (toString_base64 (Buffer_from p)))])
         \<and> (\<forall>cs. list_all is_query cs \<longrightarrow>
               map_option status
                 (tasks_get (fst (run_calls cs (fst (snd (startClaudeCodeTask tasks p wd w t env)))))
                    (generateTaskId (id_now env)))
               = Some failed))"
proof (intro conjI allI impI)
  show "tasks_get (fst (snd (startClaudeCodeTask tasks p wd w t env))) (generateTaskId (id_now env)) \<noteq> None"
    by (rule start_registers)
next
  fix r assume "fst (startClaudeCodeTask tasks p wd w t env) = Some r"
  then show "taskId_t r = generateTaskId (id_now env)" by (rule start_result_id)
next
  fix r chk n1 n2 cap
  assume "fst (startClaudeCodeTask tasks p wd w t env) = Some r"
  then have "taskId_t r = generateTaskId (id_now env)" by (rule start_result_id)
  then show "\<exists>s. fst (getClaudeCodeStatus (fst (snd (startClaudeCodeTask tasks p wd w t env)))
                      (taskId_t r) chk n1 n2 cap) = Inr s"
    using start_registers [of tasks p wd w t env] by (simp add: status_known del: not_None_eq)
next
  assume "ExecuteResult.exitCode (create_result env) \<noteq> 0"
  then show "startClaudeCodeTask tasks p wd w t env
           = (Some \<lparr>taskId_t = generateTaskId (id_now env), status_t = failed,
                    output_t = Some (''Failed to start tmux session: '' @ stderr (create_result env))\<rparr>,
              tasks_set tasks (generateTaskId (id_now env))
                \<lparr>taskId = generateTaskId (id_now env), prompt = p, workingDirectory = wd,
                 status = failed, startTime = start_now env, endTime = Some (fail_now env),
                 exitCode = None, tmuxSession = getTmuxSession (generateTaskId (id_now env))\<rparr>,
              [new_session_cmd (getTmuxSession (generateTaskId (id_now env)))
                 (claude_cmd wd (toString_base64 (Buffer_from p)))])"
    by (rule start_failed)
next
  fix cs
  assume f: "ExecuteResult.exitCode (create_result env) \<noteq> 0" and "list_all is_query cs"
  let ?task = "\<lparr>taskId = generateTaskId (id_now env), prompt = p, workingDirectory = wd,
                 status = failed, startTime = start_now env, endTime = Some (fail_now env),
                 exitCode = None, tmuxSession = getTmuxSession (generateTaskId (id_now env))\<rparr>"
  have "tasks_get (fst (snd (startClaudeCodeTask tasks p wd w t env))) (generateTaskId (id_now env))
          = Some ?task"
    by (simp add: start_failed [OF f])
  then have "tasks_get (fst (run_calls cs (fst (snd (startClaudeCodeTask tasks p wd w t env)))))
               (generateTaskId (id_now env)) = Some ?task"
    by (rule terminal_calls) simp
  then show "map_option status
                 (tasks_get (fst (run_calls cs (fst (snd (startClaudeCodeTask tasks p wd w t env)))))
                    (generateTaskId (id_now env)))
               = Some failed"
    by simp
qed

theorem start_registers_task_witness:
  "ExecuteResult.exitCode (create_result (demo_env exec_failed [])) \<noteq> 0
   \<and> fst (startClaudeCodeTask [] (code_units ''run the tests'') ''/srv/app'' True 300 (demo_env exec_failed []))
       = Some \<lparr>taskId_t = ''task-1000'', status_t = failed,
               output_t = Some ''Failed to start tmux session: no server running''\<rparr>
   \<and> fst (snd (startClaudeCodeTask [] (code_units ''run the tests'') ''/srv/app'' True 300 (demo_env exec_failed [])))
       = [(''task-1000'', demo_task failed (Some 1003))]
   \<and> list_all is_query
        [Status ''task-1000'' (session_check 1) 2000 2001 (capture_pane [] 1),
         Output ''task-1000'' None (session_check 1) 3000 (capture_pane [] 1)]
   \<and> map_option status
        (tasks_get
           (fst (run_calls
              [Status ''task-1000'' (session_check 1) 2000 2001 (capture_pane [] 1),
               Output ''task-1000'' None (session_check 1) 3000 (capture_pane [] 1)]
              (fst (snd (startClaudeCodeTask [] (code_units ''run the tests'') ''/srv/app'' True 300
                           (demo_env exec_failed []))))))
           ''task-1000'')
       = Some failed"
proof -
  let ?env = "demo_env exec_failed []"
  have f: "ExecuteResult.exitCode (create_result ?env) \<noteq> 0"
    by (simp add: demo_env_def exec_failed_def)
  have tid: "generateTaskId (id_now ?env) = ''task-1000''"
    by code_simp
  have q: "list_all is_query
        [Status ''task-1000'' (session_check 1) 2000 2001 (capture_pane [] 1),
         Output ''task-1000'' None (session_check 1) 3000 (capture_pane [] 1)]"
    by (simp add: is_query_def)
  have new: "\<lparr>taskId = ''task-1000'', prompt = code_units ''run the tests'', workingDirectory = ''/srv/app'',
              status = failed, startTime = start_now ?env, endTime = Some (fail_now ?env),
              exitCode = None, tmuxSession = getTmuxSession ''task-1000''\<rparr>
             = demo_task failed (Some 1003)"
    by (simp add: demo_task_def demo_env_def getTmuxSession_def)
  have err: "stderr (create_result ?env) = ''no server running''"
    by (simp add: demo_env_def exec_failed_def)
  note T = start_registers_task [of "[]" "code_units ''run the tests''" "''/srv/app''" True 300 ?env,
      unfolded tid new err]
  from T f have eq: "startClaudeCodeTask [] (code_units ''run the tests'') ''/srv/app'' True 300 ?env
      = (Some \<lparr>taskId_t = ''task-1000'', status_t = failed,
               output_t = Some (''Failed to start tmux session: '' @ ''no server running'')\<rparr>,
         tasks_set [] ''task-1000'' (demo_task failed (Some 1003)),
         [new_session_cmd (getTmuxSession ''task-1000'')
            (claude_cmd ''/srv/app'' (toString_base64 (Buffer_from (code_units ''run the tests''))))])"
    by blast
  have r1: "fst (startClaudeCodeTask [] (code_units ''run the tests'') ''/srv/app'' True 300 ?env)
       = Some \<lparr>taskId_t = ''task-1000'', status_t = failed,
               output_t = Some ''Failed to start tmux session: no server running''\<rparr>"
    by (simp add: eq)
  have r2: "fst (snd (startClaudeCodeTask [] (code_units ''run the tests'') ''/srv/app'' True 300 ?env))
       = [(''task-1000'', demo_task failed (Some 1003))]"
    by (simp add: eq)
  from T f q have r3: "map_option status
        (tasks_get
           (fst (run_calls
              [Status ''task-1000'' (session_check 1) 2000 2001 (capture_pane [] 1),
               Output ''task-1000'' None (session_check 1) 3000 (capture_pane [] 1)]
              (fst (snd (startClaudeCodeTask [] (code_units ''run the tests'') ''/srv/app'' True 300 ?env)))))
           ''task-1000'')
       = Some failed"
    by blast
  from f r1 r2 q r3 show ?thesis by blast
qed

text \<open>
  C7. A waiting start whose session is reported alive in every round until a clock reading
  reaches the deadline returns status running with the note that the timeout was reached.
  The wait itself writes nothing: the registry is what the calls of other callers made of
  the registry with the new task. With no such calls the new task is still running, with
  no end time, and a later \<^verbatim>\<open>getClaudeCodeStatus\<close> that finds the session gone reports
  completed.
\<close>

theorem start_timeout:
  assumes "ExecuteResult.exitCode (create_result env) = 0"
    and "polls env = ps @ p # rest"
    and "\<forall>q\<in>set ps. loop_now q - wait_now env < timeoutSeconds * 1000
            \<and> \<not> session_gone (poll_check q)"
    and "\<not> loop_now p - wait_now env < timeoutSeconds * 1000"
  shows
    "(let tid = generateTaskId (id_now env);
          task = \<lparr>taskId = tid, prompt = instruction, workingDirectory = wd, status = running,
                  startTime = start_now env, endTime = None, exitCode = None,
                  tmuxSession = getTmuxSession tid\<rparr>;
          after = startClaudeCodeTask tasks instruction wd True timeoutSeconds env
      in fst after = Some \<lparr>taskId_t = tid, status_t = running,
                          output_t = Some ''Task still running after timeout''\<rparr>
         \<and> fst (snd after) = fst (run_calls (concat (map during_sleep ps)) (tasks_set tasks tid task))
         \<and> ((\<forall>q\<in>set ps. during_sleep q = []) \<longrightarrow>
               fst (snd after) = tasks_set tasks tid task
               \<and> tasks_get (fst (snd after)) tid = Some task
               \<and> (\<forall>chk n1 n2 cap. session_gone chk \<longrightarrow>
                     (\<exists>r. fst (getClaudeCodeStatus (fst (snd after)) tid chk n1 n2 cap) = Inr r
                          \<and> status_r r = completed))))"
proof -
  let ?tid = "generateTaskId (id_now env)"
  let ?task = "\<lparr>taskId = ?tid, prompt = instruction, workingDirectory = wd, status = running,
                  startTime = start_now env, endTime = None, exitCode = None,
                  tmuxSession = getTmuxSession ?tid\<rparr>"
  let ?after = "startClaudeCodeTask tasks instruction wd True timeoutSeconds env"
  note w = waitLoop_timeout [OF assms(3) assms(4), of "tasks_set tasks ?tid ?task" ?tid
      "getTmuxSession ?tid" rest]
  have res: "fst ?after = Some \<lparr>taskId_t = ?tid, status_t = running,
                          output_t = Some ''Task still running after timeout''\<rparr>"
    using w assms(1) by (simp add: startClaudeCodeTask_def Let_def split_beta assms(2))
  have reg: "fst (snd ?after)
               = fst (run_calls (concat (map during_sleep ps)) (tasks_set tasks ?tid ?task))"
    using w assms(1) by (simp add: startClaudeCodeTask_def Let_def split_beta assms(2))
  have quiet: "fst (snd ?after) = tasks_set tasks ?tid ?task"
    if "\<forall>q\<in>set ps. during_sleep q = []"
  proof -
    from that have "concat (map during_sleep ps) = []" by simp
    with reg show ?thesis by simp
  qed
  have later: "\<exists>r. fst (getClaudeCodeStatus (tasks_set tasks ?tid ?task) ?tid chk n1 n2 cap) = Inr r
                  \<and> status_r r = completed"
    if "session_gone chk" for chk n1 n2 cap
    using that by (simp add: getClaudeCodeStatus_def Let_def mark_completed_def)
  show ?thesis
    unfolding Let_def using res reg quiet later by auto
qed

theorem start_timeout_witness:
  "fst (startClaudeCodeTask [] (code_units ''run the tests'') ''/srv/app'' True 300
          (demo_env exec_ok [quiet_poll 1005 0, quiet_poll 2010 0, quiet_poll 301004 0]))
     = Some \<lparr>taskId_t = ''task-1000'', status_t = running,
             output_t = Some ''Task still running after timeout''\<rparr>
   \<and> fst (snd (startClaudeCodeTask [] (code_units ''run the tests'') ''/srv/app'' True 300
          (demo_env exec_ok [quiet_poll 1005 0, quiet_poll 2010 0, quiet_poll 301004 0])))
     = [(''task-1000'', demo_task running None)]
   \<and> (\<exists>r. fst (getClaudeCodeStatus
                 (fst (snd (startClaudeCodeTask [] (code_units ''run the tests'') ''/srv/app'' True 300
                    (demo_env exec_ok [quiet_poll 1005 0, quiet_poll 2010 0, quiet_poll 301004 0]))))
                 ''task-1000'' (session_check 1) 400000 400001 (capture_pane [] 1)) = Inr r
          \<and> status_r r = completed)"
proof -
  let ?env = "demo_env exec_ok [quiet_poll 1005 0, quiet_poll 2010 0, quiet_poll 301004 0]"
  have h1: "ExecuteResult.exitCode (create_result ?env) = 0"
    by (simp add: demo_env_def exec_ok_def)
  have h2: "polls ?env = [quiet_poll 1005 0, quiet_poll 2010 0] @ quiet_poll 301004 0 # []"
    by (simp add: demo_env_def)
  have h3: "\<forall>q\<in>set [quiet_poll 1005 0, quiet_poll 2010 0].
              loop_now q - wait_now ?env < 300 * 1000 \<and> \<not> session_gone (poll_check q)"
    by (simp add: demo_env_def quiet_poll_def session_check_gone)
  have h4: "\<not> loop_now (quiet_poll 301004 0) - wait_now ?env < 300 * 1000"
    by (simp add: demo_env_def quiet_poll_def)
  have tid: "generateTaskId (id_now ?env) = ''task-1000''"
    by code_simp
  have quiet: "\<forall>q\<in>set [quiet_poll 1005 0, quiet_poll 2010 0]. during_sleep q = []"
    by (simp add: quiet_poll_def)
  have gone: "session_gone (session_check 1)"
    by (simp add: session_check_gone)
  have new: "\<lparr>taskId = ''task-1000'', prompt = code_units ''run the tests'', workingDirectory = ''/srv/app'',
              status = running, startTime = start_now ?env, endTime = None, exitCode = None,
              tmuxSession = getTmuxSession ''task-1000''\<rparr> = demo_task running None"
    by (simp add: demo_task_def demo_env_def getTmuxSession_def)
  note T = start_timeout [where tasks = "[]" and instruction = "code_units ''run the tests''"
      and wd = "''/srv/app''", OF h1 h2 h3 h4, unfolded Let_def tid new]
  have reg: "tasks_set [] ''task-1000'' (demo_task running None)
               = [(''task-1000'', demo_task running None)]"
    by simp
  from T quiet gone show ?thesis
    unfolding reg by blast
qed

text \<open>
  C8. \<^verbatim>\<open>getClaudeCodeStatus\<close> on a known identifier, with clock readings other than 0:
  the task is first marked completed, with the end time stamped, if it is running and the
  session is gone; \<open>runtimeSeconds\<close> is the end time if set, else the clock reading, minus
  the start time, in whole seconds; the capture of the last 30 lines is issued whatever
  the status; and when the capture fails, the shell line prints the sentinel, which is
  returned as \<open>lastOutput\<close> of a status answer, not as an error.
\<close>

theorem getStatus_contract:
  assumes "tasks_get tasks tid = Some task0"
    and "endTime task0 \<noteq> Some 0" and "now_end \<noteq> 0"
  shows
    "(let reconcile = (status task0 = running \<and> session_gone checkResult);
          task = (if reconcile then task0\<lparr>status := completed, endTime := Some now_end\<rparr> else task0)
      in getClaudeCodeStatus tasks tid checkResult now_end now_rt captureResult
           = (Inr \<lparr>status_r = status task,
                   runtimeSeconds =
                     ((case endTime task of Some e \<Rightarrow> e | None \<Rightarrow> now_rt) - startTime task0) div 1000,
                   lastOutput =
                     (if stdout captureResult = [] then ''(no output)'' else stdout captureResult)\<rparr>,
              (if reconcile then tasks_set tasks tid task else tasks),
              [has_session_cmd (tmuxSession task0), capture_cmd (tmuxSession task0) ''30'']))
     \<and> (\<forall>code. code \<noteq> 0 \<longrightarrow>
           (\<exists>r. fst (getClaudeCodeStatus tasks tid checkResult now_end now_rt (capture_pane [] code)) = Inr r
                \<and> lastOutput r = ''(session ended)''))"
  using assms
  by (auto simp: getClaudeCodeStatus_def mark_completed_def or_now_def or_else_def Let_def
        capture_pane_failed split: option.splits)

theorem getStatus_contract_witness:
  "tasks_get [(''task-1000'', demo_task running None)] ''task-1000'' = Some (demo_task running None)
   \<and> endTime (demo_task running None) \<noteq> Some 0 \<and> (61500::int) \<noteq> 0
   \<and> getClaudeCodeStatus [(''task-1000'', demo_task running None)] ''task-1000''
        (session_check 1) 61500 61501 (capture_pane [] 1)
       = (Inr \<lparr>status_r = completed, runtimeSeconds = 60, lastOutput = ''(session ended)''\<rparr>,
          [(''task-1000'', demo_task completed (Some 61500))],
          [''tmux has-session -t claude-task-1000 2>/dev/null && echo running || echo done'',
           ''tmux capture-pane -t claude-task-1000 -p -S -30 2>/dev/null || echo ''
             @ [CHR 0x22] @ ''(session ended)'' @ [CHR 0x22]])"
proof -
  have a: "tasks_get [(''task-1000'', demo_task running None)] ''task-1000''
             = Some (demo_task running None)"
    by (simp add: tasks_get_def)
  have b: "endTime (demo_task running None) \<noteq> Some 0" by (simp add: demo_task_def)
  have c: "(61500::int) \<noteq> 0" by simp
  from getStatus_contract [OF a b c, of "session_check 1" 61501 "capture_pane [] 1"] a b
  show ?thesis
    by (simp add: demo_task_def session_check_gone capture_pane_failed has_session_cmd_def
        capture_cmd_def)
qed




text \<open>
  C10. \<^verbatim>\<open>stopClaudeCodeTask\<close> does not check the session: on a task recorded as running
  whose session is already gone it still returns \<open>stopped = True\<close> and marks the task
  stopped, issuing the kill command only, where \<^verbatim>\<open>sendToClaudeCode\<close> on the same task
  marks it completed and reports the failure.
\<close>

theorem stop_skips_reconciliation:
  assumes "tasks_get tasks tid = Some task" and "status task = running"
    and "session_gone checkResult"
  shows "stopClaudeCodeTask tasks tid killResult now
           = (\<lparr>stopped_r = True, error_p = None\<rparr>,
              tasks_set tasks tid (task\<lparr>status := stopped, endTime := Some now\<rparr>),
              [kill_session_cmd (tmuxSession task)])
         \<and> sendToClaudeCode tasks tid message checkResult now sendResult
           = (\<lparr>sent = False, error_s = Some ''Task has already completed''\<rparr>,
              tasks_set tasks tid (task\<lparr>status := completed, endTime := Some now\<rparr>),
              [has_session_cmd (tmuxSession task)])"
  using assms by (simp add: stopClaudeCodeTask_def sendToClaudeCode_def mark_completed_def)

theorem stop_skips_reconciliation_witness:
  "tasks_get [(''task-1000'', demo_task running None)] ''task-1000'' = Some (demo_task running None)
   \<and> status (demo_task running None) = running
   \<and> session_gone (session_check 1)
   \<and> stopClaudeCodeTask [(''task-1000'', demo_task running None)] ''task-1000'' exec_failed 3000
         = (\<lparr>stopped_r = True, error_p = None\<rparr>,
            [(''task-1000'', demo_task stopped (Some 3000))],
            [''tmux kill-session -t claude-task-1000 2>/dev/null''])
   \<and> sendToClaudeCode [(''task-1000'', demo_task running None)] ''task-1000'' ''yes''
         (session_check 1) 3000 exec_ok
         = (\<lparr>sent = False, error_s = Some ''Task has already completed''\<rparr>,
            [(''task-1000'', demo_task completed (Some 3000))],
            [''tmux has-session -t claude-task-1000 2>/dev/null && echo running || echo done''])"
proof -
  have a: "tasks_get [(''task-1000'', demo_task running None)] ''task-1000''
             = Some (demo_task running None)"
    by (simp add: tasks_get_def)
  have b: "status (demo_task running None) = running" by (simp add: demo_task_def)
  have c: "session_gone (session_check 1)" by (simp add: session_check_gone)
  from stop_skips_reconciliation [OF a b c, of exec_failed 3000 "''yes''" exec_ok] a b c
  show ?thesis
    by (simp add: demo_task_def kill_session_cmd_def has_session_cmd_def)
qed

end
